theory Spec2Isabelle
  imports Complex_Main
begin

section \<open>Shared library functions\<close>

text \<open>
  Positions are pairs of numbers. The hand tracker delivers pixel coordinates and the
  turtle library keeps coordinates as numbers; both are modelled as exact reals, so every
  statement below is about exact arithmetic, not about rounding.
\<close>

type_synonym point = "real \<times> real"

text \<open>\<^verbatim>\<open>math.hypot(x, y)\<close>: the Euclidean norm of the vector \<open>(x, y)\<close>.\<close>

definition hypot :: "real \<Rightarrow> real \<Rightarrow> real" where
  "hypot x y = sqrt (x * x + y * y)"

text \<open>
  \<^verbatim>\<open>random.randint(a, b)\<close> returns an integer \<open>N\<close> with \<open>a \<le> N \<le> b\<close>. The generator's
  state is outside the program, so the raw draw \<open>r\<close> is an input of the model and is
  reduced into the closed interval.
\<close>

definition randint :: "int \<Rightarrow> int \<Rightarrow> nat \<Rightarrow> int" where
  "randint a b r = a + int r mod (b - a + 1)"

section \<open>The hand-tracking game: class SnakeGame\<close>

text \<open>
  The fields of \<^verbatim>\<open>SnakeGame\<close> that carry game state. The food image itself is only
  drawn; its shape is kept (both the loaded image, resized, and the fallback are 50 by 50).
\<close>

record snake_game =
  points :: "point list"
  lengths :: "real list"
  current_length :: real
  allowed_length :: int
  previous_head :: point
  food_width :: int
  food_height :: int
  food_position :: "int \<times> int"
  score :: int
  high_score :: int
  game_over :: bool

text \<open>\<^verbatim>\<open>randomize_food_location\<close>: two draws, x in 100..700 and y in 100..500.\<close>

definition randomize_food_location :: "snake_game \<Rightarrow> nat \<times> nat \<Rightarrow> snake_game" where
  "randomize_food_location s r =
     s\<lparr>food_position := (randint 100 700 (fst r), randint 100 500 (snd r))\<rparr>"

text \<open>\<^verbatim>\<open>__init__\<close>: the state after construction.\<close>

definition init_game :: "nat \<times> nat \<Rightarrow> snake_game" where
  "init_game r =
     randomize_food_location
       \<lparr>points = [], lengths = [], current_length = 0, allowed_length = 100,
        previous_head = (0, 0), food_width = 50, food_height = 50,
        food_position = (0, 0), score = 0, high_score = 0, game_over = False\<rparr> r"

text \<open>\<^verbatim>\<open>reset_game\<close>.\<close>

definition reset_game :: "snake_game \<Rightarrow> nat \<times> nat \<Rightarrow> snake_game" where
  "reset_game s r =
     (let s1 = s\<lparr>points := [], lengths := [], current_length := 0, allowed_length := 100,
                 previous_head := (0, 0)\<rparr>;
          s2 = (if score s1 > high_score s1 then s1\<lparr>high_score := score s1\<rparr> else s1);
          s3 = s2\<lparr>score := 0, game_over := False\<rparr>
      in randomize_food_location s3 r)"

text \<open>
  \<^verbatim>\<open>check_collision\<close>: the loop over \<^verbatim>\<open>self.points[:-50]\<close> returns at the first body
  point closer than 15 to the head.
\<close>

fun collision_loop :: "point list \<Rightarrow> real \<Rightarrow> real \<Rightarrow> bool" where
  "collision_loop [] px py = False"
| "collision_loop (body_point # rest) px py =
     (case body_point of (bx, by) \<Rightarrow>
        if hypot (px - bx) (py - by) < 15 then True else collision_loop rest px py)"

definition check_collision :: "snake_game \<Rightarrow> point \<Rightarrow> bool" where
  "check_collision s point =
     (case point of (px, py) \<Rightarrow>
        if length (points s) > 50
        then collision_loop (take (length (points s) - 50) (points s)) px py
        else False)"

text \<open>
  \<^verbatim>\<open>_trim_snake_length\<close>: the while loop. \<^verbatim>\<open>self.points.pop(0)\<close> raises IndexError on
  an empty list; that is the result \<open>None\<close>.
\<close>

function trim_snake_length :: "snake_game \<Rightarrow> snake_game option" where
  "trim_snake_length s =
     (if current_length s > real_of_int (allowed_length s) \<and> lengths s \<noteq> []
      then (case points s of
              [] \<Rightarrow> None
            | p # ps \<Rightarrow>
                trim_snake_length
                  (s\<lparr>current_length := current_length s - hd (lengths s),
                     lengths := tl (lengths s), points := ps\<rparr>))
      else Some s)"
  by pat_completeness auto
termination
  by (relation "measure (\<lambda>s. length (lengths s))") auto

declare trim_snake_length.simps [simp del]

text \<open>
  \<^verbatim>\<open>_check_food_collision\<close>: the head is strictly inside the food's bounding box.
\<close>

definition touches_food :: "snake_game \<Rightarrow> real \<Rightarrow> real \<Rightarrow> bool" where
  "touches_food s cx cy =
     (case food_position s of (rx, ry) \<Rightarrow>
        let half_width = food_width s div 2; half_height = food_height s div 2
        in real_of_int (rx - half_width) < cx \<and> cx < real_of_int (rx + half_width) \<and>
           real_of_int (ry - half_height) < cy \<and> cy < real_of_int (ry + half_height))"

definition check_food_collision :: "snake_game \<Rightarrow> real \<Rightarrow> real \<Rightarrow> nat \<times> nat \<Rightarrow> snake_game" where
  "check_food_collision s cx cy r =
     (if touches_food s cx cy
      then (let s1 = randomize_food_location s r;
                s2 = s1\<lparr>allowed_length := allowed_length s1 + 30\<rparr>
            in s2\<lparr>score := score s2 + 1\<rparr>)
      else s)"

text \<open>
  The first block of \<^verbatim>\<open>update\<close> ("Add new point to snake body"): the head is appended
  with its distance from the previous head.
\<close>

definition add_new_point :: "snake_game \<Rightarrow> point \<Rightarrow> snake_game" where
  "add_new_point s current_head =
     (case previous_head s of (px, py) \<Rightarrow>
      case current_head of (cx, cy) \<Rightarrow>
        let distance = hypot (cx - px) (cy - py)
        in s\<lparr>points := points s @ [(cx, cy)],
             lengths := lengths s @ [distance],
             current_length := current_length s + distance,
             previous_head := (cx, cy)\<rparr>)"

text \<open>
  \<^verbatim>\<open>update\<close>, without the drawing: nothing when the game is over; otherwise add the
  point, trim, check the food, check the self collision.
\<close>

definition update :: "snake_game \<Rightarrow> point \<Rightarrow> nat \<times> nat \<Rightarrow> snake_game option" where
  "update s current_head r =
     (if game_over s then Some s
      else case trim_snake_length (add_new_point s current_head) of
             None \<Rightarrow> None
           | Some s2 \<Rightarrow>
               let s3 = check_food_collision s2 (fst current_head) (snd current_head) r
               in if check_collision s3 current_head
                  then Some (s3\<lparr>game_over := True\<rparr>)
                  else Some s3)"

text \<open>
  What \<^verbatim>\<open>main\<close> does to the game per frame: \<^verbatim>\<open>update\<close> when a hand is seen,
  \<^verbatim>\<open>reset_game\<close> on the key R, nothing otherwise.
\<close>

datatype event = Update point "nat \<times> nat" | Reset "nat \<times> nat" | NoHand

fun step :: "snake_game \<Rightarrow> event \<Rightarrow> snake_game option" where
  "step s (Update h r) = update s h r"
| "step s (Reset r) = Some (reset_game s r)"
| "step s NoHand = Some s"

fun run :: "snake_game \<Rightarrow> event list \<Rightarrow> snake_game option" where
  "run s [] = Some s"
| "run s (e # es) = (case step s e of None \<Rightarrow> None | Some s' \<Rightarrow> run s' es)"

text \<open>
  Two invariants of the body lists: they have the same length and the tracked length is
  the sum of the segment lengths; and the bookkeeping that ties the permitted length to
  the score.
\<close>

definition body_inv :: "snake_game \<Rightarrow> bool" where
  "body_inv s =
     (length (points s) = length (lengths s) \<and> current_length s = sum_list (lengths s))"

definition game_inv :: "snake_game \<Rightarrow> bool" where
  "game_inv s =
     (body_inv s \<and> current_length s \<le> real_of_int (allowed_length s) \<and>
      allowed_length s = 100 + 30 * score s \<and> 0 \<le> score s)"

section \<open>The keyboard game: class ClassicSnakeGame\<close>

text \<open>
  The turtles are kept by what the game reads of them: the head's position and its
  \<^verbatim>\<open>direction\<close> attribute, the position of every body segment and of the food. The
  class has no game-over field.
\<close>

record classic_snake_game =
  delay :: real
  classic_score :: int
  classic_high_score :: int
  is_paused :: bool
  segments :: "point list"
  head_pos :: point
  head_direction :: string
  food_pos :: point

text \<open>\<^verbatim>\<open>__init__\<close>: head at the origin with direction "stop", food at (0, 100).\<close>

definition classic_init :: classic_snake_game where
  "classic_init =
     \<lparr>delay = 1 / 10, classic_score = 0, classic_high_score = 0, is_paused = False,
      segments = [], head_pos = (0, 0), head_direction = ''stop'', food_pos = (0, 100)\<rparr>"

text \<open>The four key handlers and the pause toggle.\<close>

definition go_up :: "classic_snake_game \<Rightarrow> classic_snake_game" where
  "go_up g = (if head_direction g \<noteq> ''down'' then g\<lparr>head_direction := ''up''\<rparr> else g)"

definition go_down :: "classic_snake_game \<Rightarrow> classic_snake_game" where
  "go_down g = (if head_direction g \<noteq> ''up'' then g\<lparr>head_direction := ''down''\<rparr> else g)"

definition go_left :: "classic_snake_game \<Rightarrow> classic_snake_game" where
  "go_left g = (if head_direction g \<noteq> ''right'' then g\<lparr>head_direction := ''left''\<rparr> else g)"

definition go_right :: "classic_snake_game \<Rightarrow> classic_snake_game" where
  "go_right g = (if head_direction g \<noteq> ''left'' then g\<lparr>head_direction := ''right''\<rparr> else g)"

definition toggle_pause :: "classic_snake_game \<Rightarrow> classic_snake_game" where
  "toggle_pause g = g\<lparr>is_paused := \<not> is_paused g\<rparr>"

text \<open>\<^verbatim>\<open>move\<close>: one step of 20 in the current direction; any other direction, no move.\<close>

definition move :: "classic_snake_game \<Rightarrow> classic_snake_game" where
  "move g =
     (let step = 20 in
      case head_pos g of (x, y) \<Rightarrow>
        if head_direction g = ''up'' then g\<lparr>head_pos := (x, y + step)\<rparr>
        else if head_direction g = ''down'' then g\<lparr>head_pos := (x, y - step)\<rparr>
        else if head_direction g = ''left'' then g\<lparr>head_pos := (x - step, y)\<rparr>
        else if head_direction g = ''right'' then g\<lparr>head_pos := (x + step, y)\<rparr>
        else g)"

text \<open>\<^verbatim>\<open>spawn_food\<close>: two draws in -270..270.\<close>

definition spawn_food :: "classic_snake_game \<Rightarrow> nat \<times> nat \<Rightarrow> classic_snake_game" where
  "spawn_food g r =
     g\<lparr>food_pos := (real_of_int (randint (- 270) 270 (fst r)),
                     real_of_int (randint (- 270) 270 (snd r)))\<rparr>"

text \<open>\<^verbatim>\<open>add_segment\<close>: a new turtle starts at the origin and is appended.\<close>

definition add_segment :: "classic_snake_game \<Rightarrow> classic_snake_game" where
  "add_segment g = g\<lparr>segments := segments g @ [(0, 0)]\<rparr>"

text \<open>
  \<^verbatim>\<open>move_segments\<close>: the loop \<^verbatim>\<open>for i in range(len - 1, 0, -1)\<close> copies the position of
  segment \<open>i - 1\<close> into segment \<open>i\<close>; then the first segment goes to the head.
\<close>

fun move_segments_loop :: "nat \<Rightarrow> point list \<Rightarrow> point list" where
  "move_segments_loop 0 segs = segs"
| "move_segments_loop (Suc i) segs = move_segments_loop i (segs[Suc i := segs ! i])"

definition move_segments :: "classic_snake_game \<Rightarrow> classic_snake_game" where
  "move_segments g =
     (let segs = move_segments_loop (length (segments g) - 1) (segments g)
      in if segs \<noteq> [] then g\<lparr>segments := segs[0 := head_pos g]\<rparr>
         else g\<lparr>segments := segs\<rparr>)"

text \<open>\<^verbatim>\<open>Turtle.distance\<close>: the Euclidean distance of two positions.\<close>

definition distance :: "point \<Rightarrow> point \<Rightarrow> real" where
  "distance a b = hypot (fst b - fst a) (snd b - snd a)"

definition check_wall_collision :: "classic_snake_game \<Rightarrow> bool" where
  "check_wall_collision g =
     (case head_pos g of (x, y) \<Rightarrow> \<bar>x\<bar> > 290 \<or> \<bar>y\<bar> > 290)"

fun self_collision_loop :: "point list \<Rightarrow> point \<Rightarrow> bool" where
  "self_collision_loop [] h = False"
| "self_collision_loop (segment # rest) h =
     (if distance segment h < 20 then True else self_collision_loop rest h)"

definition check_self_collision :: "classic_snake_game \<Rightarrow> bool" where
  "check_self_collision g = self_collision_loop (segments g) (head_pos g)"

text \<open>
  \<^verbatim>\<open>reset_game\<close> of the classic game: the segments are moved away and the list is
  cleared; the food is not touched.
\<close>

definition classic_reset_game :: "classic_snake_game \<Rightarrow> classic_snake_game" where
  "classic_reset_game g =
     (let g1 = g\<lparr>head_pos := (0, 0), head_direction := ''stop''\<rparr>;
          g2 = g1\<lparr>segments := []\<rparr>;
          g3 = (if classic_score g2 > classic_high_score g2
                then g2\<lparr>classic_high_score := classic_score g2\<rparr> else g2)
      in g3\<lparr>classic_score := 0, delay := 1 / 10\<rparr>)"

text \<open>
  The body of \<^verbatim>\<open>run\<close>'s loop, in its order: wall check, food check, segments, head,
  self check. The food check ("Check food collision") is \<open>classic_check_food\<close>: its test
  is \<open>food_reached\<close> and its block is \<open>eat_food\<close>.
\<close>

definition food_reached :: "classic_snake_game \<Rightarrow> bool" where
  "food_reached g = (distance (head_pos g) (food_pos g) < 20)"

definition eat_food :: "classic_snake_game \<Rightarrow> nat \<times> nat \<Rightarrow> classic_snake_game" where
  "eat_food g r =
     (let g1 = add_segment (spawn_food g r);
          g2 = g1\<lparr>classic_score := classic_score g1 + 10\<rparr>;
          g3 = (if delay g2 > 5 / 100 then g2\<lparr>delay := delay g2 - 2 / 1000\<rparr> else g2)
      in if classic_score g3 > classic_high_score g3
         then g3\<lparr>classic_high_score := classic_score g3\<rparr> else g3)"

definition classic_check_food :: "classic_snake_game \<Rightarrow> nat \<times> nat \<Rightarrow> classic_snake_game" where
  "classic_check_food g r = (if food_reached g then eat_food g r else g)"

definition tick :: "classic_snake_game \<Rightarrow> nat \<times> nat \<Rightarrow> classic_snake_game" where
  "tick g r =
     (if is_paused g then g
      else let g1 = (if check_wall_collision g then classic_reset_game g else g);
               g2 = classic_check_food g1 r;
               g3 = move (move_segments g2)
           in if check_self_collision g3 then classic_reset_game g3 else g3)"

text \<open>What happens to the classic game: a key handler or one pass of the loop.\<close>

datatype classic_event = GoUp | GoDown | GoLeft | GoRight | TogglePause | Tick "nat \<times> nat"

fun classic_step :: "classic_snake_game \<Rightarrow> classic_event \<Rightarrow> classic_snake_game" where
  "classic_step g GoUp = go_up g"
| "classic_step g GoDown = go_down g"
| "classic_step g GoLeft = go_left g"
| "classic_step g GoRight = go_right g"
| "classic_step g TogglePause = toggle_pause g"
| "classic_step g (Tick r) = tick g r"

fun classic_run :: "classic_snake_game \<Rightarrow> classic_event list \<Rightarrow> classic_snake_game" where
  "classic_run g [] = g"
| "classic_run g (e # es) = classic_run (classic_step g e) es"

section \<open>Example states\<close>

text \<open>
  The hand-tracking game after the head has rested at (300, 400) for 51 frames, with the
  food at (330, 400); and the same game one frame later, the head moved to (306, 400).
\<close>

definition resting_game :: snake_game where
  "resting_game =
     \<lparr>points = replicate 50 (300, 400), lengths = replicate 50 0, current_length = 0,
      allowed_length = 100, previous_head = (300, 400), food_width = 50, food_height = 50,
      food_position = (330, 400), score = 0, high_score = 0, game_over = False\<rparr>"

definition ended_game :: snake_game where
  "ended_game =
     \<lparr>points = replicate 50 (300, 400) @ [(306, 400)], lengths = replicate 50 0 @ [6],
      current_length = 6, allowed_length = 130, previous_head = (306, 400),
      food_width = 50, food_height = 50, food_position = (100, 100), score = 1,
      high_score = 0, game_over = True\<rparr>"

text \<open>
  The classic game with the head beyond the right wall; and with one segment lying under
  a head that does not move.
\<close>

definition beyond_wall :: classic_snake_game where
  "beyond_wall = classic_init\<lparr>head_pos := (300, 0), head_direction := ''right''\<rparr>"

definition on_segment :: classic_snake_game where
  "on_segment = classic_init\<lparr>segments := [(0, 0)]\<rparr>"

section \<open>Facts about the library functions\<close>

text \<open>Comparing a distance with a positive bound needs no square root.\<close>

lemma hypot_less_iff:
  assumes "0 < c"
  shows "hypot x y < c \<longleftrightarrow> x * x + y * y < c * c"
proof -
  have "sqrt (c * c) = c" using assms by simp
  moreover have "sqrt (x * x + y * y) < sqrt (c * c) \<longleftrightarrow> x * x + y * y < c * c"
    by (rule real_sqrt_less_iff)
  ultimately show ?thesis by (simp only: hypot_def)
qed

text \<open>A draw lies in the closed interval it was asked for.\<close>

lemma randint_bounds:
  assumes "a \<le> b"
  shows "a \<le> randint a b r \<and> randint a b r \<le> b"
proof -
  have pos: "0 < b - a + 1" using assms by simp
  have "0 \<le> int r mod (b - a + 1)" using pos by (rule pos_mod_sign)
  moreover have "int r mod (b - a + 1) < b - a + 1" using pos by (rule pos_mod_bound)
  ultimately show ?thesis unfolding randint_def by linarith
qed

section \<open>Properties of the hand-tracking game\<close>

subsection \<open>The trimming loop\<close>

lemma trim_stop:
  "\<not> (current_length s > real_of_int (allowed_length s) \<and> lengths s \<noteq> []) \<Longrightarrow>
   trim_snake_length s = Some s"
  by (subst trim_snake_length.simps) (simp only: if_False)

lemma trim_pop:
  "current_length s > real_of_int (allowed_length s) \<Longrightarrow> lengths s \<noteq> [] \<Longrightarrow>
   points s = p # ps \<Longrightarrow>
   trim_snake_length s =
     trim_snake_length (s\<lparr>current_length := current_length s - hd (lengths s),
                          lengths := tl (lengths s), points := ps\<rparr>)"
  by (subst trim_snake_length.simps) simp

lemma trim_total:
  "length (points s) = length (lengths s) \<Longrightarrow> \<exists>s'. trim_snake_length s = Some s'"
proof (induction s rule: trim_snake_length.induct)
  case (1 s)
  show ?case
  proof (cases "current_length s > real_of_int (allowed_length s) \<and> lengths s \<noteq> []")
    case False
    from trim_stop[OF this] show ?thesis by blast
  next
    case True
    then obtain p ps where ps: "points s = p # ps"
      using "1.prems" by (cases "points s") auto
    have "length ps = length (tl (lengths s))" using "1.prems" ps by simp
    with "1.IH"[OF True ps] ps True show ?thesis
      by (simp add: trim_pop)
  qed
qed

lemma trim_body_inv:
  "trim_snake_length s = Some s' \<Longrightarrow> body_inv s \<Longrightarrow> body_inv s'"
proof (induction s rule: trim_snake_length.induct)
  case (1 s)
  show ?case
  proof (cases "current_length s > real_of_int (allowed_length s) \<and> lengths s \<noteq> []")
    case False
    with "1.prems" show ?thesis by (subst (asm) trim_snake_length.simps) simp
  next
    case True
    then obtain p ps where ps: "points s = p # ps"
      using "1.prems" by (cases "points s") (auto simp: body_inv_def)
    obtain l ls where ls: "lengths s = l # ls" using True by (cases "lengths s") auto
    let ?t = "s\<lparr>current_length := current_length s - hd (lengths s),
                     lengths := tl (lengths s), points := ps\<rparr>"
    have t: "trim_snake_length ?t = Some s'"
      using "1.prems"(1) True ps by (subst (asm) trim_snake_length.simps) simp
    have "body_inv ?t" using "1.prems"(2) ps ls by (simp add: body_inv_def)
    from "1.IH"[OF True ps t this] show ?thesis .
  qed
qed

lemma trim_fields:
  "trim_snake_length s = Some s' \<Longrightarrow>
     allowed_length s' = allowed_length s \<and> previous_head s' = previous_head s \<and>
     food_width s' = food_width s \<and> food_height s' = food_height s \<and>
     food_position s' = food_position s \<and> score s' = score s \<and>
     high_score s' = high_score s \<and> game_over s' = game_over s"
proof (induction s rule: trim_snake_length.induct)
  case (1 s)
  show ?case
  proof (cases "current_length s > real_of_int (allowed_length s) \<and> lengths s \<noteq> []")
    case False
    with "1.prems" show ?thesis by (subst (asm) trim_snake_length.simps) simp
  next
    case True
    show ?thesis
    proof (cases "points s")
      case Nil
      with "1.prems" True show ?thesis by (subst (asm) trim_snake_length.simps) simp
    next
      case (Cons p ps)
      let ?t = "s\<lparr>current_length := current_length s - hd (lengths s),
                     lengths := tl (lengths s), points := ps\<rparr>"
      have t: "trim_snake_length ?t = Some s'"
        using "1.prems"(1) True Cons by (subst (asm) trim_snake_length.simps) simp
      from "1.IH"[OF True Cons t] show ?thesis by simp
    qed
  qed
qed

lemma trim_bound:
  "trim_snake_length s = Some s' \<Longrightarrow>
     current_length s' \<le> real_of_int (allowed_length s') \<or> lengths s' = []"
proof (induction s rule: trim_snake_length.induct)
  case (1 s)
  show ?case
  proof (cases "current_length s > real_of_int (allowed_length s) \<and> lengths s \<noteq> []")
    case False
    with "1.prems" show ?thesis by (subst (asm) trim_snake_length.simps) auto
  next
    case True
    show ?thesis
    proof (cases "points s")
      case Nil
      with "1.prems" True show ?thesis by (subst (asm) trim_snake_length.simps) simp
    next
      case (Cons p ps)
      let ?t = "s\<lparr>current_length := current_length s - hd (lengths s),
                     lengths := tl (lengths s), points := ps\<rparr>"
      have t: "trim_snake_length ?t = Some s'"
        using "1.prems"(1) True Cons by (subst (asm) trim_snake_length.simps) simp
      from "1.IH"[OF True Cons t] show ?thesis by simp
    qed
  qed
qed



subsection \<open>The invariant of every reachable state\<close>

lemma init_game_inv: "game_inv (init_game r)"
  by (simp add: game_inv_def body_inv_def init_game_def randomize_food_location_def)

lemma reset_game_inv: "game_inv (reset_game s r)"
  by (simp add: game_inv_def body_inv_def reset_game_def randomize_food_location_def Let_def)

lemma add_new_point_body_inv: "body_inv s \<Longrightarrow> body_inv (add_new_point s h)"
  by (simp add: body_inv_def add_new_point_def Let_def split: prod.splits)

lemma add_new_point_fields:
  "allowed_length (add_new_point s h) = allowed_length s \<and>
   score (add_new_point s h) = score s \<and> high_score (add_new_point s h) = high_score s \<and>
   game_over (add_new_point s h) = game_over s \<and>
   food_position (add_new_point s h) = food_position s \<and>
   food_width (add_new_point s h) = food_width s \<and>
   food_height (add_new_point s h) = food_height s"
  by (simp add: add_new_point_def Let_def split: prod.splits)

lemma check_food_collision_body:
  "points (check_food_collision s cx cy r) = points s \<and>
   lengths (check_food_collision s cx cy r) = lengths s \<and>
   current_length (check_food_collision s cx cy r) = current_length s \<and>
   game_over (check_food_collision s cx cy r) = game_over s \<and>
   high_score (check_food_collision s cx cy r) = high_score s \<and>
   previous_head (check_food_collision s cx cy r) = previous_head s"
  by (simp add: check_food_collision_def randomize_food_location_def Let_def)

lemma check_food_collision_score:
  "score (check_food_collision s cx cy r) = score s + (if touches_food s cx cy then 1 else 0) \<and>
   allowed_length (check_food_collision s cx cy r) =
     allowed_length s + (if touches_food s cx cy then 30 else 0)"
  by (simp add: check_food_collision_def randomize_food_location_def Let_def)

lemma trimmed_game_inv:
  assumes inv: "game_inv s" and t: "trim_snake_length (add_new_point s h) = Some s2"
  shows "game_inv s2"
proof -
  have b: "body_inv s2"
    using trim_body_inv[OF t] add_new_point_body_inv inv by (simp add: game_inv_def)
  have f: "allowed_length s2 = allowed_length s" "score s2 = score s"
    using trim_fields[OF t] add_new_point_fields[of s h] by simp_all
  have "current_length s2 \<le> real_of_int (allowed_length s2)"
  proof -
    from trim_bound[OF t] show ?thesis
    proof
      assume "lengths s2 = []"
      then have "current_length s2 = 0" using b by (simp add: body_inv_def)
      moreover have "0 \<le> allowed_length s2" using f inv by (simp add: game_inv_def)
      ultimately show ?thesis by simp
    qed
  qed
  with b f inv show ?thesis by (simp add: game_inv_def)
qed

lemma check_food_collision_game_inv:
  "game_inv s \<Longrightarrow> game_inv (check_food_collision s cx cy r)"
  using check_food_collision_body[of s cx cy r] check_food_collision_score[of s cx cy r]
  by (simp add: game_inv_def body_inv_def)

lemma update_game_inv:
  assumes inv: "game_inv s"
  shows "\<exists>s'. update s h r = Some s' \<and> game_inv s'"
proof (cases "game_over s")
  case True
  with inv show ?thesis by (simp add: update_def)
next
  case False
  have "length (points (add_new_point s h)) = length (lengths (add_new_point s h))"
    using add_new_point_body_inv[of s h] inv by (simp add: game_inv_def body_inv_def)
  from trim_total[OF this] obtain s2 where t: "trim_snake_length (add_new_point s h) = Some s2"
    by blast
  let ?s3 = "check_food_collision s2 (fst h) (snd h) r"
  have "game_inv ?s3"
    using check_food_collision_game_inv[OF trimmed_game_inv[OF inv t]] .
  then have "game_inv (?s3\<lparr>game_over := True\<rparr>)"
    by (simp add: game_inv_def body_inv_def)
  with \<open>game_inv ?s3\<close> False t show ?thesis
    by (simp add: update_def Let_def)
qed

lemma step_game_inv: "game_inv s \<Longrightarrow> \<exists>s'. step s e = Some s' \<and> game_inv s'"
  by (cases e) (simp_all add: update_game_inv reset_game_inv)

lemma run_game_inv: "game_inv s \<Longrightarrow> \<exists>s'. run s es = Some s' \<and> game_inv s'"
proof (induction es arbitrary: s)
  case Nil
  then show ?case by simp
next
  case (Cons e es)
  from step_game_inv[OF Cons.prems] obtain s1 where "step s e = Some s1" "game_inv s1"
    by blast
  with Cons.IH[of s1] show ?case by simp
qed

lemmas snake_eval =
  init_game_def update_def add_new_point_def trim_snake_length.simps
  check_food_collision_def touches_food_def check_collision_def
  randomize_food_location_def randint_def hypot_def Let_def reset_game_def

lemmas classic_eval =
  classic_init_def go_up_def go_down_def go_left_def go_right_def toggle_pause_def move_def
  spawn_food_def add_segment_def move_segments_def distance_def check_wall_collision_def
  check_self_collision_def classic_reset_game_def food_reached_def eat_food_def
  classic_check_food_def tick_def randint_def hypot_less_iff Let_def

subsection \<open>Tracked length and segment lengths\<close>

text \<open>
  C1. From construction, after any finite sequence of \<^verbatim>\<open>update\<close> calls (with any head
  positions and any food draws), \<^verbatim>\<open>reset_game\<close> calls and idle frames, no call fails
  and \<open>current_length\<close> is exactly the sum of the list \<open>lengths\<close>, in real arithmetic.
  Every prefix of the sequence is such a sequence, so this is the state after every call.
\<close>

theorem current_length_is_sum:
  "\<exists>s. run (init_game r0) es = Some s \<and> current_length s = sum_list (lengths s)"
  using run_game_inv[OF init_game_inv, of r0 es] by (auto simp: game_inv_def body_inv_def)

theorem current_length_is_sum_witness:
  "\<exists>s. run (init_game (0, 0))
          [Update (30, 40) (0, 0), Update (60, 80) (0, 0), Reset (5, 5),
           Update (90, 120) (0, 0)] = Some s \<and>
       current_length s = sum_list (lengths s)"
  by (rule current_length_is_sum)

text \<open>
  While the game is running, \<^verbatim>\<open>update\<close> is: add the point, trim, handle the food, and
  set the flag to the outcome of the collision check (which reads the points only).
\<close>

lemma update_playing:
  assumes "\<not> game_over s" "trim_snake_length (add_new_point s h) = Some s2"
  shows "update s h r =
           Some ((check_food_collision s2 (fst h) (snd h) r)
                   \<lparr>game_over := check_collision s2 h\<rparr>)"
proof -
  let ?s3 = "check_food_collision s2 (fst h) (snd h) r"
  have "check_collision ?s3 h = check_collision s2 h"
    using check_food_collision_body[of s2 "fst h" "snd h" r] by (simp add: check_collision_def)
  moreover have "\<not> game_over ?s3"
    using check_food_collision_body[of s2 "fst h" "snd h" r] trim_fields[OF assms(2)]
      add_new_point_fields[of s h] assms(1) by simp
  ultimately show ?thesis using assms by (simp add: update_def Let_def)
qed

subsection \<open>Length bound after trimming\<close>

text \<open>
  The comparison that ends the trimming loop is made on the tracked \<open>current_length\<close>.
  In exact arithmetic that value is the newest increment once every older entry has been
  popped, so the newest entry also stays when the increment equals \<open>allowed_length\<close>.
  The program's floating-point subtraction can leave the tracked value a rounding error
  above the increment, and at equality that pops the newest entry too (previous head
  (1, 29), new head (101, 29), increment exactly 100). The statement below therefore asks
  for an increment strictly below \<open>allowed_length\<close>. Between integer pixel positions such
  an increment is below the bound by a margin far above the rounding error of these
  subtractions: its square is at most the square of the bound minus 1.
\<close>

lemma pixel_increment_margin:
  fixes dx dy a :: int
  assumes "0 < a" "hypot (real_of_int dx) (real_of_int dy) < real_of_int a"
  shows "dx * dx + dy * dy \<le> a * a - 1"
proof -
  have "real_of_int dx * real_of_int dx + real_of_int dy * real_of_int dy
          < real_of_int a * real_of_int a"
    using assms by (simp add: hypot_less_iff)
  then have "real_of_int (dx * dx + dy * dy) < real_of_int (a * a)" by simp
  then have "dx * dx + dy * dy < a * a" by (simp only: of_int_less_iff)
  then show ?thesis by simp
qed




subsection \<open>Sizes of the two lists\<close>

text \<open>
  C8, in the form that holds. After construction and after every \<^verbatim>\<open>update\<close> and \<^verbatim>\<open>reset_game\<close>, the
  list \<open>lengths\<close> has exactly as many elements as the list \<open>points\<close>: every point is
  stored with the distance that led to it, the first one with its distance from (0, 0).
\<close>

theorem lengths_same_size_as_points:
  "\<exists>s. run (init_game r0) es = Some s \<and> length (lengths s) = length (points s)"
  using run_game_inv[OF init_game_inv, of r0 es] by (auto simp: game_inv_def body_inv_def)

theorem lengths_same_size_as_points_witness:
  "\<exists>s. run (init_game (0, 0)) [Update (30, 40) (0, 0), Update (60, 80) (0, 0)] = Some s \<and>
       length (lengths s) = length (points s)"
  by (rule lengths_same_size_as_points)

text \<open>
  After one \<^verbatim>\<open>update\<close> both lists have one element, so \<open>lengths\<close> is not one shorter.
\<close>

theorem lengths_one_fewer_counterexample:
  "map_option points (update (init_game (0, 0)) (30, 40) (0, 0)) = Some [(30, 40)] \<and>
   map_option lengths (update (init_game (0, 0)) (30, 40) (0, 0)) = Some [50] \<and>
   int (length [50::real]) \<noteq> int (length [(30, 40)::point]) - 1"
  by (simp add: snake_eval)

subsection \<open>Permitted length and score\<close>

text \<open>
  C10. Every state reached from construction, or from the result of a \<^verbatim>\<open>reset_game\<close>, by
  any sequence of calls satisfies \<open>allowed_length = 100 + 30 * score\<close> (resets in the
  sequence included), and no call fails.
\<close>

theorem allowed_length_from_score:
  "(\<exists>s. run (init_game r0) es = Some s \<and> allowed_length s = 100 + 30 * score s) \<and>
   (\<exists>s. run (reset_game s0 r0) es = Some s \<and> allowed_length s = 100 + 30 * score s)"
  using run_game_inv[OF init_game_inv, of r0 es] run_game_inv[OF reset_game_inv, of s0 r0 es]
  by (auto simp: game_inv_def)

theorem allowed_length_from_score_witness:
  "(\<exists>s. run (init_game (0, 0)) [Update (30, 40) (0, 0), Update (60, 80) (0, 0), Update (90, 120) (7, 9)] = Some s \<and>
        allowed_length s = 100 + 30 * score s) \<and>
   (\<exists>s. run (reset_game (init_game (1, 1)) (0, 0)) [Update (30, 40) (0, 0), Update (60, 80) (0, 0), Update (90, 120) (7, 9)] = Some s \<and>
        allowed_length s = 100 + 30 * score s)"
  by (rule allowed_length_from_score)

subsection \<open>The self-collision check\<close>

text \<open>The loop returns true exactly when some point of the list it scans is close.\<close>

lemma collision_loop_iff:
  "collision_loop bps px py =
     (\<exists>i<length bps. hypot (px - fst (bps ! i)) (py - snd (bps ! i)) < 15)"
proof (induction bps)
  case Nil
  then show ?case by simp
next
  case (Cons b bps)
  obtain bx "by" where b: "b = (bx, by)" by (cases b)
  show ?case
  proof (cases "hypot (px - bx) (py - by) < 15")
    case True
    then have "hypot (px - fst ((b # bps) ! 0)) (py - snd ((b # bps) ! 0)) < 15"
      using b by simp
    then have "\<exists>i<length (b # bps). hypot (px - fst ((b # bps) ! i)) (py - snd ((b # bps) ! i)) < 15"
      by (intro exI[of _ 0]) simp
    with True b show ?thesis by simp
  next
    case False
    have "(\<exists>i<length (b # bps). hypot (px - fst ((b # bps) ! i)) (py - snd ((b # bps) ! i)) < 15)
          = (\<exists>i<length bps. hypot (px - fst (bps ! i)) (py - snd (bps ! i)) < 15)"
    proof
      assume "\<exists>i<length (b # bps). hypot (px - fst ((b # bps) ! i)) (py - snd ((b # bps) ! i)) < 15"
      then obtain i where i: "i < length (b # bps)"
        "hypot (px - fst ((b # bps) ! i)) (py - snd ((b # bps) ! i)) < 15" by blast
      with False b obtain j where "i = Suc j" by (cases i) auto
      with i show "\<exists>i<length bps. hypot (px - fst (bps ! i)) (py - snd (bps ! i)) < 15"
        by auto
    next
      assume "\<exists>i<length bps. hypot (px - fst (bps ! i)) (py - snd (bps ! i)) < 15"
      then obtain j where "j < length bps" "hypot (px - fst (bps ! j)) (py - snd (bps ! j)) < 15"
        by blast
      then show "\<exists>i<length (b # bps). hypot (px - fst ((b # bps) ! i)) (py - snd ((b # bps) ! i)) < 15"
        by (intro exI[of _ "Suc j"]) simp
    qed
    with False b Cons.IH show ?thesis by simp
  qed
qed

text \<open>
  C5. \<^verbatim>\<open>check_collision\<close> returns false whenever \<open>points\<close> has 50 or fewer elements.
  With more than 50 elements it returns true if and only if some point other than the
  last 50 (the 50 most recently appended), that is, some point at an index below
  \<open>length points - 50\<close>, is at Euclidean distance strictly below 15 from the head.
\<close>

theorem check_collision_window:
  "(length (points s) \<le> 50 \<longrightarrow> \<not> check_collision s (px, py)) \<and>
   (50 < length (points s) \<longrightarrow>
      check_collision s (px, py) =
        (\<exists>i<length (points s) - 50.
           hypot (px - fst (points s ! i)) (py - snd (points s ! i)) < 15))"
  by (auto simp: check_collision_def collision_loop_iff)

theorem check_collision_window_witness:
  "length (points ((init_game (0, 0))\<lparr>points := replicate 50 (300, 400)\<rparr>)) \<le> 50 \<and>
   \<not> check_collision ((init_game (0, 0))\<lparr>points := replicate 50 (300, 400)\<rparr>) (300, 400) \<and>
   50 < length (points ((init_game (0, 0))\<lparr>points := (300, 400) # replicate 50 (500, 400)\<rparr>)) \<and>
   check_collision ((init_game (0, 0))\<lparr>points := (300, 400) # replicate 50 (500, 400)\<rparr>)
     (308, 412)"
proof -
  let ?short = "(init_game (0, 0))\<lparr>points := replicate 50 (300, 400)\<rparr>"
  let ?long = "(init_game (0, 0))\<lparr>points := (300, 400) # replicate 50 (500, 400)\<rparr>"
  have a: "length (points ?short) \<le> 50" by simp
  have b: "50 < length (points ?long)" by simp
  have "hypot (308 - fst (points ?long ! 0)) (412 - snd (points ?long ! 0)) < 15"
    by (simp add: hypot_less_iff)
  then have c: "\<exists>i<length (points ?long) - 50.
      hypot (308 - fst (points ?long ! i)) (412 - snd (points ?long ! i)) < 15"
    by (intro exI[of _ 0]) simp
  from check_collision_window[of ?short 300 400] a
  have "\<not> check_collision ?short (300, 400)" by blast
  moreover from check_collision_window[of ?long 308 412] b c
  have "check_collision ?long (308, 412)" by blast
  ultimately show ?thesis using a b by blast
qed

subsection \<open>Reset of the hand-tracking game and of the classic game\<close>

text \<open>
  C6, in the form that holds. \<^verbatim>\<open>reset_game\<close> of the hand-tracking game: score 0, the
  game-over flag cleared, the high score the maximum of the old high score and the old
  score, \<open>points\<close> and \<open>lengths\<close> empty, \<open>current_length\<close> 0, \<open>allowed_length\<close> 100, the
  previous head (0, 0), and the food drawn afresh as at construction, inside
  100..700 by 100..500. \<^verbatim>\<open>reset_game\<close> of the classic game: score 0, the high score the
  maximum of the old high score and the old score, no segments, delay 0.1, the head at
  the origin with direction "stop"; the food stays where it was, and the pause flag is
  kept (the class has no game-over flag).
\<close>

theorem reset_reinitialises:
  "score (reset_game s r) = 0 \<and> \<not> game_over (reset_game s r) \<and>
   high_score (reset_game s r) = max (high_score s) (score s) \<and>
   points (reset_game s r) = [] \<and> lengths (reset_game s r) = [] \<and>
   current_length (reset_game s r) = 0 \<and> allowed_length (reset_game s r) = 100 \<and>
   previous_head (reset_game s r) = (0, 0) \<and>
   food_position (reset_game s r) = food_position (init_game r) \<and>
   100 \<le> fst (food_position (reset_game s r)) \<and> fst (food_position (reset_game s r)) \<le> 700 \<and>
   100 \<le> snd (food_position (reset_game s r)) \<and> snd (food_position (reset_game s r)) \<le> 500 \<and>
   classic_score (classic_reset_game g) = 0 \<and>
   classic_high_score (classic_reset_game g) = max (classic_high_score g) (classic_score g) \<and>
   segments (classic_reset_game g) = [] \<and> delay (classic_reset_game g) = 1 / 10 \<and>
   head_pos (classic_reset_game g) = (0, 0) \<and> head_direction (classic_reset_game g) = ''stop'' \<and>
   food_pos (classic_reset_game g) = food_pos g \<and>
   is_paused (classic_reset_game g) = is_paused g"
proof -
  have x: "100 \<le> randint 100 700 (fst r) \<and> randint 100 700 (fst r) \<le> 700"
    by (rule randint_bounds) simp
  have y: "100 \<le> randint 100 500 (snd r) \<and> randint 100 500 (snd r) \<le> 500"
    by (rule randint_bounds) simp
  have "food_position (reset_game s r) = (randint 100 700 (fst r), randint 100 500 (snd r))"
    by (simp add: reset_game_def randomize_food_location_def Let_def)
  with x y show ?thesis
    by (simp add: reset_game_def init_game_def randomize_food_location_def
        classic_reset_game_def Let_def max_def)
qed

theorem reset_reinitialises_witness:
  "score (reset_game (init_game (0, 0)) (5, 5)) = 0 \<and>
   food_pos (classic_reset_game classic_init) = food_pos classic_init"
  using reset_reinitialises[of "init_game (0, 0)" "(5, 5)" classic_init] by simp

text \<open>
  The classic game keeps its food across a reset: after the food at (0, 100) has been
  eaten and a new place drawn, \<^verbatim>\<open>reset_game\<close> leaves the food at the drawn place; it is
  neither put back to its initial place nor drawn again.
\<close>

theorem classic_reset_keeps_food_counterexample:
  "food_pos (classic_run classic_init (GoUp # replicate 6 (Tick (310, 210)))) = (40, - 60) \<and>
   classic_score (classic_run classic_init (GoUp # replicate 6 (Tick (310, 210)))) = 10 \<and>
   food_pos (classic_reset_game (classic_run classic_init (GoUp # replicate 6 (Tick (310, 210)))))
     = (40, - 60) \<and>
   food_pos classic_init = (0, 100)"
  by (simp add: classic_eval eval_nat_numeral cong: let_weak_cong)

section \<open>Properties of the classic game\<close>

subsection \<open>Direction commands\<close>

text \<open>
  C9. A direction command that exactly reverses the current heading (up while heading
  down, down while up, left while right, right while left) leaves the state, and so the
  stored direction, unchanged; every other command sets the direction to the commanded
  one, whatever the current direction is. From "stop" every command is accepted.
\<close>

theorem reverse_command_rejected:
  "head_direction (go_up g) = (if head_direction g = ''down'' then ''down'' else ''up'') \<and>
   head_direction (go_down g) = (if head_direction g = ''up'' then ''up'' else ''down'') \<and>
   head_direction (go_left g) = (if head_direction g = ''right'' then ''right'' else ''left'') \<and>
   head_direction (go_right g) = (if head_direction g = ''left'' then ''left'' else ''right'') \<and>
   (head_direction g = ''down'' \<longrightarrow> go_up g = g) \<and>
   (head_direction g = ''up'' \<longrightarrow> go_down g = g) \<and>
   (head_direction g = ''right'' \<longrightarrow> go_left g = g) \<and>
   (head_direction g = ''left'' \<longrightarrow> go_right g = g) \<and>
   (head_direction g = ''stop'' \<longrightarrow>
      head_direction (go_up g) = ''up'' \<and> head_direction (go_down g) = ''down'' \<and>
      head_direction (go_left g) = ''left'' \<and> head_direction (go_right g) = ''right'')"
  by (simp add: go_up_def go_down_def go_left_def go_right_def)

theorem reverse_command_rejected_witness:
  "head_direction (go_down classic_init) = ''down'' \<and>
   go_up (go_down classic_init) = go_down classic_init \<and>
   head_direction (go_up classic_init) = ''up'' \<and>
   go_down (go_up classic_init) = go_up classic_init \<and>
   head_direction (go_right classic_init) = ''right'' \<and>
   go_left (go_right classic_init) = go_right classic_init \<and>
   head_direction (go_left classic_init) = ''left'' \<and>
   go_right (go_left classic_init) = go_left classic_init \<and>
   head_direction (go_left (go_down classic_init)) = ''left''"
proof -
  have stop: "head_direction classic_init = ''stop''" by (simp add: classic_init_def)
  note init = reverse_command_rejected[of classic_init]
  have d: "head_direction (go_down classic_init) = ''down''"
    and u: "head_direction (go_up classic_init) = ''up''"
    and r: "head_direction (go_right classic_init) = ''right''"
    and l: "head_direction (go_left classic_init) = ''left''"
    using init stop by simp_all
  have "go_up (go_down classic_init) = go_down classic_init"
    using reverse_command_rejected[of "go_down classic_init"] d by blast
  moreover have "go_down (go_up classic_init) = go_up classic_init"
    using reverse_command_rejected[of "go_up classic_init"] u by blast
  moreover have "go_left (go_right classic_init) = go_right classic_init"
    using reverse_command_rejected[of "go_right classic_init"] r by blast
  moreover have "go_right (go_left classic_init) = go_left classic_init"
    using reverse_command_rejected[of "go_left classic_init"] l by blast
  moreover have "head_direction (go_left (go_down classic_init)) = ''left''"
    using reverse_command_rejected[of "go_down classic_init"] d by simp
  ultimately show ?thesis using d u r l by blast
qed

section \<open>Properties of a whole tick\<close>

subsection \<open>Helper facts\<close>

text \<open>Adding the point and trimming do not touch the food, so the food test is the same.\<close>

lemma touches_food_trimmed:
  assumes "trim_snake_length (add_new_point s h) = Some s2"
  shows "touches_food s2 cx cy = touches_food s cx cy"
  using trim_fields[OF assms] add_new_point_fields[of s h] by (simp add: touches_food_def)

text \<open>Once the game is over, only \<^verbatim>\<open>reset_game\<close> changes the state.\<close>

lemma game_over_stuck:
  "game_over s \<Longrightarrow> \<forall>r. Reset r \<notin> set es \<Longrightarrow> run s es = Some s"
proof (induction es)
  case Nil
  then show ?case by simp
next
  case (Cons e es)
  have "step s e = Some s"
  proof (cases e)
    case (Update h r)
    with Cons.prems(1) show ?thesis by (simp add: update_def)
  next
    case (Reset r)
    from Cons.prems(2) have "Reset r \<notin> set (e # es)" by blast
    with Reset show ?thesis by simp
  next
    case NoHand
    then show ?thesis by simp
  qed
  with Cons show ?case by simp
qed

text \<open>
  A pass of the classic loop that finds the head beyond the wall is the pass of the
  freshly reset game.
\<close>

lemma wall_hit_resets:
  assumes "\<not> is_paused g" "check_wall_collision g"
  shows "tick g r = tick (classic_reset_game g) r"
proof -
  have "\<not> check_wall_collision (classic_reset_game g)"
    by (simp add: check_wall_collision_def classic_reset_game_def Let_def)
  moreover have "\<not> is_paused (classic_reset_game g)"
    using assms(1) by (simp add: classic_reset_game_def Let_def)
  ultimately show ?thesis using assms by (simp add: tick_def)
qed

text \<open>Moving the head and the segments leaves food, scores and delay alone.\<close>

lemma move_keeps:
  "food_pos (move g) = food_pos g \<and> classic_score (move g) = classic_score g \<and>
   classic_high_score (move g) = classic_high_score g \<and> segments (move g) = segments g \<and>
   delay (move g) = delay g"
  by (simp add: move_def Let_def split: prod.splits)

lemma move_segments_keeps:
  "food_pos (move_segments g) = food_pos g \<and>
   classic_score (move_segments g) = classic_score g \<and>
   classic_high_score (move_segments g) = classic_high_score g \<and>
   head_pos (move_segments g) = head_pos g \<and>
   head_direction (move_segments g) = head_direction g \<and> delay (move_segments g) = delay g"
  by (simp add: move_segments_def Let_def)

subsection \<open>Order of the steps of a tick\<close>

text \<open>
  C3, in the form that holds. Hand-tracking game, \<^verbatim>\<open>update\<close> while the game is running:
  the head is appended and the body trimmed first; then the food is handled, so score
  and \<open>allowed_length\<close> grow by 1 and 30 exactly when the head touches the food, whatever
  the collision check says afterwards; the collision check comes last, on the trimmed
  body, and its outcome is the new game-over flag. Classic game, one pass of the loop
  while not paused: the wall is checked first and a hit resets the game at once; then
  the food check runs on the head before it moves; then segments and head move; the self
  check comes last and a hit resets the game at once. No pass stops early.
\<close>

theorem update_order:
  "(\<not> game_over s \<and> update s h r = Some s' \<longrightarrow>
      (\<exists>s2. trim_snake_length (add_new_point s h) = Some s2 \<and>
            points s' = points s2 \<and>
            score s' = score s + (if touches_food s (fst h) (snd h) then 1 else 0) \<and>
            allowed_length s' =
              allowed_length s + (if touches_food s (fst h) (snd h) then 30 else 0) \<and>
            game_over s' = check_collision s2 h)) \<and>
   (\<not> is_paused g \<longrightarrow>
      (let g1 = (if check_wall_collision g then classic_reset_game g else g);
           g3 = move (move_segments (classic_check_food g1 r'))
       in food_pos (tick g r') = food_pos (classic_check_food g1 r') \<and>
          head_pos (tick g r') = (if check_self_collision g3 then (0, 0) else head_pos g3) \<and>
          classic_score (tick g r') = (if check_self_collision g3 then 0 else classic_score g3)))"
proof -
  have a: "\<exists>s2. trim_snake_length (add_new_point s h) = Some s2 \<and>
            points s' = points s2 \<and>
            score s' = score s + (if touches_food s (fst h) (snd h) then 1 else 0) \<and>
            allowed_length s' =
              allowed_length s + (if touches_food s (fst h) (snd h) then 30 else 0) \<and>
            game_over s' = check_collision s2 h"
    if go: "\<not> game_over s" and u: "update s h r = Some s'"
  proof -
    from u go obtain s2 where t: "trim_snake_length (add_new_point s h) = Some s2"
      by (auto simp: update_def split: option.splits)
    have s': "s' = (check_food_collision s2 (fst h) (snd h) r)\<lparr>game_over := check_collision s2 h\<rparr>"
      using update_playing[OF go t, of r] u by simp
    have f: "score s2 = score s" "allowed_length s2 = allowed_length s"
      using trim_fields[OF t] add_new_point_fields[of s h] by simp_all
    show ?thesis
      using t s' f touches_food_trimmed[OF t, of "fst h" "snd h"]
        check_food_collision_body[of s2 "fst h" "snd h" r]
        check_food_collision_score[of s2 "fst h" "snd h" r]
      by simp
  qed
  have b: "let g1 = (if check_wall_collision g then classic_reset_game g else g);
           g3 = move (move_segments (classic_check_food g1 r'))
       in food_pos (tick g r') = food_pos (classic_check_food g1 r') \<and>
          head_pos (tick g r') = (if check_self_collision g3 then (0, 0) else head_pos g3) \<and>
          classic_score (tick g r') = (if check_self_collision g3 then 0 else classic_score g3)"
    if "\<not> is_paused g"
    using that move_keeps move_segments_keeps
    by (simp add: tick_def Let_def classic_reset_game_def)
  from a b show ?thesis by blast
qed

theorem update_order_witness:
  "\<not> game_over (init_game (0, 0)) \<and>
   update (init_game (0, 0)) (90, 120) (7, 9) =
     Some \<lparr>points = [], lengths = [], current_length = 0, allowed_length = 130,
           previous_head = (90, 120), food_width = 50, food_height = 50,
           food_position = (107, 109), score = 1, high_score = 0, game_over = False\<rparr> \<and>
   touches_food (init_game (0, 0)) 90 120 \<and>
   (\<exists>s2. trim_snake_length (add_new_point (init_game (0, 0)) (90, 120)) = Some s2 \<and>
         points s2 = [] \<and> \<not> check_collision s2 (90, 120)) \<and>
   \<not> is_paused (go_up classic_init) \<and>
   food_pos (tick (go_up classic_init) (0, 0)) = (0, 100) \<and>
   head_pos (tick (go_up classic_init) (0, 0)) = (0, 20) \<and>
   classic_score (tick (go_up classic_init) (0, 0)) = 0"
proof -
  let ?s' = "\<lparr>points = [], lengths = [], current_length = 0, allowed_length = 130,
           previous_head = (90, 120), food_width = 50, food_height = 50,
           food_position = (107, 109), score = 1, high_score = 0, game_over = False\<rparr>"
  have a: "\<not> game_over (init_game (0, 0))" by (simp add: snake_eval)
  have b: "update (init_game (0, 0)) (90, 120) (7, 9) = Some ?s'"
    by (simp add: snake_eval cong: let_weak_cong)
  have c: "touches_food (init_game (0, 0)) 90 120" by (simp add: snake_eval)
  have d: "\<not> is_paused (go_up classic_init)" by (simp add: classic_eval)
  have e: "\<not> check_wall_collision (go_up classic_init)" by (simp add: classic_eval)
  have f: "classic_check_food (go_up classic_init) (0, 0) = go_up classic_init"
    by (simp add: classic_eval)
  have g: "move (move_segments (go_up classic_init)) =
             classic_init\<lparr>head_pos := (0, 20), head_direction := ''up''\<rparr>"
    by (simp add: classic_eval)
  have h: "\<not> check_self_collision (classic_init\<lparr>head_pos := (0, 20), head_direction := ''up''\<rparr>)"
    by (simp add: classic_eval)
  from update_order[of "init_game (0, 0)" "(90, 120)" "(7, 9)" ?s' "go_up classic_init" "(0, 0)"]
    a b c d e f g h
  show ?thesis by (auto simp: classic_init_def go_up_def Let_def)
qed

text \<open>
  The food is at (330, 400), so its box is 305 < x < 355, 375 < y < 425. The head stays
  at (300, 400), just outside the box, for 51 frames: the first point is trimmed away
  (it is 500 from the initial previous head), the next 50 stay. On frame 52 the head
  moves to (306, 400), inside the box and 6 away from the oldest point, which is no
  longer among the last 50. That frame ends the game, and the food has been handled on
  it all the same: the score goes from 0 to 1, \<open>allowed_length\<close> from 100 to 130, and the
  food is drawn again.
\<close>

theorem food_handled_before_collision_counterexample:
  "run (init_game (230, 300)) (replicate 51 (Update (300, 400) (0, 0))) =
     Some \<lparr>points = replicate 50 (300, 400), lengths = replicate 50 0, current_length = 0,
       allowed_length = 100, previous_head = (300, 400), food_width = 50, food_height = 50,
       food_position = (330, 400), score = 0, high_score = 0, game_over = False\<rparr> \<and>
   run (init_game (230, 300)) (replicate 51 (Update (300, 400) (0, 0)) @ [Update (306, 400) (0, 0)]) =
     Some \<lparr>points = replicate 50 (300, 400) @ [(306, 400)], lengths = replicate 50 0 @ [6],
       current_length = 6, allowed_length = 130, previous_head = (306, 400),
       food_width = 50, food_height = 50, food_position = (100, 100), score = 1,
       high_score = 0, game_over = True\<rparr>"
  by (simp add: snake_eval eval_nat_numeral cong: let_weak_cong)

subsection \<open>The game-over flag\<close>

text \<open>
  C4, in the form that holds. Hand-tracking game: an \<^verbatim>\<open>update\<close> made while the game is
  running sets the flag exactly when \<^verbatim>\<open>check_collision\<close> reports a self collision on the
  trimmed body (there is no boundary check); once the flag is set, \<^verbatim>\<open>update\<close> changes
  nothing, and no sequence of frames without \<^verbatim>\<open>reset_game\<close> changes the state at all;
  \<^verbatim>\<open>reset_game\<close> clears the flag; placing the food leaves it alone. Classic game: there
  is no flag; a pass that finds the head beyond the wall continues as the pass of the
  reset game, and a pass whose self check fires ends in the reset game.
\<close>

theorem game_over_flag:
  "(\<not> game_over s \<and> update s h r = Some s' \<longrightarrow>
      (\<exists>s2. trim_snake_length (add_new_point s h) = Some s2 \<and>
            game_over s' = check_collision s2 h)) \<and>
   (game_over s \<longrightarrow> update s h r = Some s) \<and>
   (game_over s \<and> (\<forall>r. Reset r \<notin> set es) \<longrightarrow> run s es = Some s) \<and>
   \<not> game_over (reset_game s r) \<and>
   game_over (randomize_food_location s r) = game_over s \<and>
   (\<not> is_paused g \<and> check_wall_collision g \<longrightarrow>
      tick g r' = tick (classic_reset_game g) r') \<and>
   (\<not> is_paused g \<and> \<not> check_wall_collision g \<and>
    check_self_collision (move (move_segments (classic_check_food g r'))) \<longrightarrow>
      tick g r' = classic_reset_game (move (move_segments (classic_check_food g r'))))"
proof -
  have a: "\<exists>s2. trim_snake_length (add_new_point s h) = Some s2 \<and>
            game_over s' = check_collision s2 h"
    if go: "\<not> game_over s" and u: "update s h r = Some s'"
  proof -
    from u go obtain s2 where t: "trim_snake_length (add_new_point s h) = Some s2"
      by (auto simp: update_def split: option.splits)
    from update_playing[OF go t, of r] u t show ?thesis by auto
  qed
  have b: "update s h r = Some s" if "game_over s" using that by (simp add: update_def)
  have c: "\<not> game_over (reset_game s r)"
    by (simp add: reset_game_def randomize_food_location_def Let_def)
  have d: "game_over (randomize_food_location s r) = game_over s"
    by (simp add: randomize_food_location_def)
  have e: "tick g r' = classic_reset_game (move (move_segments (classic_check_food g r')))"
    if "\<not> is_paused g" "\<not> check_wall_collision g"
      "check_self_collision (move (move_segments (classic_check_food g r')))"
    using that by (simp add: tick_def Let_def)
  from a b c d e game_over_stuck[of s es] wall_hit_resets[of g r'] show ?thesis by blast
qed

theorem game_over_flag_witness:
  "\<not> game_over resting_game \<and>
   update resting_game (306, 400) (0, 0) = Some ended_game \<and>
   (\<exists>s2. trim_snake_length (add_new_point resting_game (306, 400)) = Some s2 \<and>
         check_collision s2 (306, 400)) \<and>
   game_over ended_game \<and>
   update ended_game (10, 10) (0, 0) = Some ended_game \<and>
   run ended_game [Update (10, 10) (0, 0), NoHand, Update (500, 300) (1, 1)] = Some ended_game \<and>
   \<not> is_paused beyond_wall \<and> check_wall_collision beyond_wall \<and>
   tick beyond_wall (0, 0) = tick (classic_reset_game beyond_wall) (0, 0) \<and>
   \<not> is_paused on_segment \<and> \<not> check_wall_collision on_segment \<and>
   check_self_collision (move (move_segments (classic_check_food on_segment (0, 0)))) \<and>
   tick on_segment (0, 0) =
     classic_reset_game (move (move_segments (classic_check_food on_segment (0, 0))))"
proof -
  have a1: "\<not> game_over resting_game" by (simp add: resting_game_def)
  have a2: "update resting_game (306, 400) (0, 0) = Some ended_game"
    by (simp add: resting_game_def ended_game_def snake_eval eval_nat_numeral
        cong: let_weak_cong)
  have b1: "game_over ended_game" by (simp add: ended_game_def)
  have b2: "\<forall>r. Reset r \<notin> set [Update (10, 10) (0, 0), NoHand, Update (500, 300) (1, 1)]"
    by simp
  have c1: "\<not> is_paused beyond_wall" "check_wall_collision beyond_wall"
    by (simp_all add: beyond_wall_def classic_eval)
  have d1: "\<not> is_paused on_segment" "\<not> check_wall_collision on_segment"
    "check_self_collision (move (move_segments (classic_check_food on_segment (0, 0))))"
    by (simp_all add: on_segment_def classic_eval)
  from game_over_flag[of resting_game "(306, 400)" "(0, 0)" ended_game "[]" beyond_wall
      "(0, 0)"] a1 a2 b1 c1
  have p1: "(\<exists>s2. trim_snake_length (add_new_point resting_game (306, 400)) = Some s2 \<and>
         check_collision s2 (306, 400)) \<and>
       tick beyond_wall (0, 0) = tick (classic_reset_game beyond_wall) (0, 0)"
    by simp
  from game_over_flag[of ended_game "(10, 10)" "(0, 0)" ended_game
      "[Update (10, 10) (0, 0), NoHand, Update (500, 300) (1, 1)]" on_segment "(0, 0)"]
    b1 b2 d1
  have p2: "update ended_game (10, 10) (0, 0) = Some ended_game \<and>
    run ended_game [Update (10, 10) (0, 0), NoHand, Update (500, 300) (1, 1)] =
      Some ended_game \<and>
    tick on_segment (0, 0) =
      classic_reset_game (move (move_segments (classic_check_food on_segment (0, 0))))"
    by blast
  from a1 a2 b1 c1 d1 p1 p2 show ?thesis by blast
qed

text \<open>
  The classic game heading right from the start: after 15 passes the head is at
  (300, 0), beyond the wall; the 16th pass detects it and ends in the initial state
  again, running, without any reset request.
\<close>

theorem classic_collision_resets_counterexample:
  "check_wall_collision (classic_run classic_init (GoRight # replicate 15 (Tick (0, 0)))) \<and>
   classic_run classic_init (GoRight # replicate 16 (Tick (0, 0))) = classic_init"
  by (simp add: classic_eval eval_nat_numeral cong: let_weak_cong)

subsection \<open>Eating the food\<close>

lemma randomized_food_in_bounds:
  "100 \<le> fst (food_position (randomize_food_location s r)) \<and>
   fst (food_position (randomize_food_location s r)) \<le> 700 \<and>
   100 \<le> snd (food_position (randomize_food_location s r)) \<and>
   snd (food_position (randomize_food_location s r)) \<le> 500"
proof -
  have "100 \<le> randint 100 700 (fst r) \<and> randint 100 700 (fst r) \<le> 700"
    by (rule randint_bounds) simp
  moreover have "100 \<le> randint 100 500 (snd r) \<and> randint 100 500 (snd r) \<le> 500"
    by (rule randint_bounds) simp
  ultimately show ?thesis by (simp add: randomize_food_location_def)
qed

lemma spawned_food_in_bounds:
  "- 270 \<le> fst (food_pos (spawn_food g r)) \<and> fst (food_pos (spawn_food g r)) \<le> 270 \<and>
   - 270 \<le> snd (food_pos (spawn_food g r)) \<and> snd (food_pos (spawn_food g r)) \<le> 270"
proof -
  have "- 270 \<le> randint (- 270) 270 (fst r) \<and> randint (- 270) 270 (fst r) \<le> 270"
    by (rule randint_bounds) simp
  moreover have "- 270 \<le> randint (- 270) 270 (snd r) \<and> randint (- 270) 270 (snd r) \<le> 270"
    by (rule randint_bounds) simp
  ultimately show ?thesis by (simp add: spawn_food_def)
qed

lemma eat_food_effect:
  "classic_score (eat_food g r) = classic_score g + 10 \<and>
   segments (eat_food g r) = segments g @ [(0, 0)] \<and>
   food_pos (eat_food g r) = food_pos (spawn_food g r) \<and>
   delay (eat_food g r) = (if delay g > 5 / 100 then delay g - 2 / 1000 else delay g)"
  by (simp add: eat_food_def add_segment_def spawn_food_def Let_def)

text \<open>Moving the segments keeps their number.\<close>

lemma length_move_segments_loop: "length (move_segments_loop i segs) = length segs"
  by (induction i arbitrary: segs) simp_all

lemma length_move_segments: "length (segments (move_segments g)) = length (segments g)"
proof -
  define segs where "segs = move_segments_loop (length (segments g) - 1) (segments g)"
  have l: "length segs = length (segments g)"
    unfolding segs_def by (rule length_move_segments_loop)
  have "segments (move_segments g) = (if segs \<noteq> [] then segs[0 := head_pos g] else segs)"
    unfolding segs_def by (simp add: move_segments_def Let_def)
  then have "length (segments (move_segments g)) = length segs" by simp
  with l show ?thesis by simp
qed

text \<open>
  C7. Hand-tracking game: an \<^verbatim>\<open>update\<close> of a running game whose head touches the food
  raises the score by exactly 1 and \<open>allowed_length\<close> by exactly 30, and leaves the food at
  a place with x in 100..700 and y in 100..500. Classic game: when the food check of a
  pass finds the food reached, it raises the score by exactly 10, appends one segment,
  puts the food at a place with both coordinates in -270..270, and lowers the delay by
  0.002 if the delay is above 0.05 and leaves it alone otherwise. These effects are the
  effects of the whole pass whenever the pass does not reset the game (no wall hit at its
  start, no self collision at its end).
\<close>

theorem food_consumption:
  "(\<not> game_over s \<and> touches_food s (fst h) (snd h) \<and> update s h r = Some s' \<longrightarrow>
      score s' = score s + 1 \<and> allowed_length s' = allowed_length s + 30 \<and>
      100 \<le> fst (food_position s') \<and> fst (food_position s') \<le> 700 \<and>
      100 \<le> snd (food_position s') \<and> snd (food_position s') \<le> 500) \<and>
   (food_reached g \<longrightarrow>
      classic_score (classic_check_food g r') = classic_score g + 10 \<and>
      segments (classic_check_food g r') = segments g @ [(0, 0)] \<and>
      - 270 \<le> fst (food_pos (classic_check_food g r')) \<and>
      fst (food_pos (classic_check_food g r')) \<le> 270 \<and>
      - 270 \<le> snd (food_pos (classic_check_food g r')) \<and>
      snd (food_pos (classic_check_food g r')) \<le> 270 \<and>
      delay (classic_check_food g r') =
        (if delay g > 5 / 100 then delay g - 2 / 1000 else delay g)) \<and>
   (\<not> is_paused g \<and> \<not> check_wall_collision g \<and> food_reached g \<and>
    \<not> check_self_collision (move (move_segments (classic_check_food g r'))) \<longrightarrow>
      classic_score (tick g r') = classic_score g + 10 \<and>
      length (segments (tick g r')) = length (segments g) + 1 \<and>
      food_pos (tick g r') = food_pos (classic_check_food g r') \<and>
      delay (tick g r') = (if delay g > 5 / 100 then delay g - 2 / 1000 else delay g))"
proof -
  have a: "score s' = score s + 1 \<and> allowed_length s' = allowed_length s + 30 \<and>
      100 \<le> fst (food_position s') \<and> fst (food_position s') \<le> 700 \<and>
      100 \<le> snd (food_position s') \<and> snd (food_position s') \<le> 500"
    if go: "\<not> game_over s" and tf: "touches_food s (fst h) (snd h)"
      and u: "update s h r = Some s'"
  proof -
    from u go obtain s2 where t: "trim_snake_length (add_new_point s h) = Some s2"
      by (auto simp: update_def split: option.splits)
    have s': "s' = (check_food_collision s2 (fst h) (snd h) r)\<lparr>game_over := check_collision s2 h\<rparr>"
      using update_playing[OF go t, of r] u by simp
    have f: "score s2 = score s" "allowed_length s2 = allowed_length s"
      using trim_fields[OF t] add_new_point_fields[of s h] by simp_all
    have tf2: "touches_food s2 (fst h) (snd h)"
      using touches_food_trimmed[OF t, of "fst h" "snd h"] tf by simp
    then have "food_position s' = food_position (randomize_food_location s2 r)"
      using s' by (simp add: check_food_collision_def Let_def)
    with randomized_food_in_bounds[of s2 r] s' f tf2
      check_food_collision_score[of s2 "fst h" "snd h" r]
    show ?thesis by simp
  qed
  have b: "classic_score (classic_check_food g r') = classic_score g + 10 \<and>
      segments (classic_check_food g r') = segments g @ [(0, 0)] \<and>
      - 270 \<le> fst (food_pos (classic_check_food g r')) \<and>
      fst (food_pos (classic_check_food g r')) \<le> 270 \<and>
      - 270 \<le> snd (food_pos (classic_check_food g r')) \<and>
      snd (food_pos (classic_check_food g r')) \<le> 270 \<and>
      delay (classic_check_food g r') =
        (if delay g > 5 / 100 then delay g - 2 / 1000 else delay g)"
    if "food_reached g"
    using that eat_food_effect[of g r'] spawned_food_in_bounds[of g r']
    by (simp add: classic_check_food_def)
  have c: "classic_score (tick g r') = classic_score g + 10 \<and>
      length (segments (tick g r')) = length (segments g) + 1 \<and>
      food_pos (tick g r') = food_pos (classic_check_food g r') \<and>
      delay (tick g r') = (if delay g > 5 / 100 then delay g - 2 / 1000 else delay g)"
    if p: "\<not> is_paused g" "\<not> check_wall_collision g" and fr: "food_reached g"
      and ns: "\<not> check_self_collision (move (move_segments (classic_check_food g r')))"
  proof -
    let ?g2 = "classic_check_food g r'"
    have t: "tick g r' = move (move_segments ?g2)" using p ns by (simp add: tick_def Let_def)
    have "length (segments (move (move_segments ?g2))) = length (segments ?g2)"
      using move_keeps[of "move_segments ?g2"] length_move_segments[of ?g2] by simp
    with t b[OF fr] move_keeps[of "move_segments ?g2"] move_segments_keeps[of ?g2]
    show ?thesis by simp
  qed
  from a b c show ?thesis by blast
qed

theorem food_consumption_witness:
  "\<not> game_over (init_game (0, 0)) \<and> touches_food (init_game (0, 0)) 90 120 \<and>
   update (init_game (0, 0)) (90, 120) (7, 9) =
     Some \<lparr>points = [], lengths = [], current_length = 0, allowed_length = 130,
           previous_head = (90, 120), food_width = 50, food_height = 50,
           food_position = (107, 109), score = 1, high_score = 0, game_over = False\<rparr> \<and>
   score (init_game (0, 0)) = 0 \<and> allowed_length (init_game (0, 0)) = 100 \<and>
   \<not> is_paused (classic_init\<lparr>head_pos := (0, 100), head_direction := ''up''\<rparr>) \<and>
   \<not> check_wall_collision (classic_init\<lparr>head_pos := (0, 100), head_direction := ''up''\<rparr>) \<and>
   food_reached (classic_init\<lparr>head_pos := (0, 100), head_direction := ''up''\<rparr>) \<and>
   \<not> check_self_collision (move (move_segments (classic_check_food
         (classic_init\<lparr>head_pos := (0, 100), head_direction := ''up''\<rparr>) (310, 210)))) \<and>
   classic_check_food (classic_init\<lparr>head_pos := (0, 100), head_direction := ''up''\<rparr>) (310, 210) =
     \<lparr>delay = 98 / 1000, classic_score = 10, classic_high_score = 10, is_paused = False,
      segments = [(0, 0)], head_pos = (0, 100), head_direction = ''up'',
      food_pos = (40, - 60)\<rparr> \<and>
   classic_score (tick (classic_init\<lparr>head_pos := (0, 100), head_direction := ''up''\<rparr>) (310, 210)) = 10 \<and>
   length (segments (tick (classic_init\<lparr>head_pos := (0, 100), head_direction := ''up''\<rparr>) (310, 210))) = 1 \<and>
   delay (tick (classic_init\<lparr>head_pos := (0, 100), head_direction := ''up''\<rparr>) (310, 210)) = 98 / 1000 \<and>
   food_pos (tick (classic_init\<lparr>head_pos := (0, 100), head_direction := ''up''\<rparr>) (310, 210)) = (40, - 60)"
proof -
  let ?s' = "\<lparr>points = [], lengths = [], current_length = 0, allowed_length = 130,
           previous_head = (90, 120), food_width = 50, food_height = 50,
           food_position = (107, 109), score = 1, high_score = 0, game_over = False\<rparr>"
  let ?g = "classic_init\<lparr>head_pos := (0, 100), head_direction := ''up''\<rparr>"
  let ?g2 = "\<lparr>delay = 98 / 1000, classic_score = 10, classic_high_score = 10, is_paused = False,
      segments = [(0, 0)], head_pos = (0, 100), head_direction = ''up'',
      food_pos = (40, - 60)\<rparr>"
  have a: "\<not> game_over (init_game (0, 0))" by (simp add: snake_eval)
  have b: "update (init_game (0, 0)) (90, 120) (7, 9) = Some ?s'"
    by (simp add: snake_eval cong: let_weak_cong)
  have c: "touches_food (init_game (0, 0)) 90 120" by (simp add: snake_eval)
  have d: "\<not> is_paused ?g" "\<not> check_wall_collision ?g" "food_reached ?g"
    by (simp_all add: classic_eval)
  have e: "classic_check_food ?g (310, 210) = ?g2"
    by (simp add: classic_eval cong: let_weak_cong)
  have f: "\<not> check_self_collision (move (move_segments ?g2))"
    by (simp add: classic_eval cong: let_weak_cong)
  have i: "delay ?g = 1 / 10" "segments ?g = []" "classic_score ?g = 0"
    "score (init_game (0, 0)) = 0" "allowed_length (init_game (0, 0)) = 100"
    by (simp_all add: classic_init_def snake_eval)
  from food_consumption[of "init_game (0, 0)" "(90, 120)" "(7, 9)" ?s' ?g "(310, 210)"]
    a b c d e f i
  show ?thesis by simp
qed

end
